theory Spec2Isabelle
  imports Main "HOL-Library.AList" "HOL-Library.Word"
begin

section \<open>dfpyre: a builder for DiamondFire code templates (\<open>dfpyre/pyre.py\<close>)\<close>

text \<open>
  The Python module keeps a template as an object with three fields (\<open>commands\<close>,
  \<open>closebracket\<close>, \<open>definedVars\<close>); every builder method appends \<open>CodeBlock\<close>s to
  \<open>commands\<close>, and \<open>build\<close> turns the commands into a list of dictionaries.
  The embedding passes the template explicitly and returns the updated template.
  A Python exception is a value \<open>Inl e\<close> of a sum type.
  Python dictionaries are association lists in insertion order: \<open>d[k] = v\<close> is
  \<open>AList.update k v d\<close> (replace in place, or append), \<open>d[k]\<close> is \<open>dict_get d k\<close>.
  Leading underscores of Python names are dropped (\<open>_convertDataTypes\<close> is
  \<open>convertDataTypes\<close>), trailing ones become \<open>_fn\<close> (\<open>define_\<close> is \<open>define_fn\<close>).
\<close>

subsection \<open>Python values and errors\<close>

datatype pyerr = IndexError | KeyError | AttributeError | TypeError

text \<open>A Python \<open>int\<close> is unbounded; a Python \<open>float\<close> is a 64-bit pattern that the
  builder only stores.\<close>

datatype pynumber = NInt int | NFloat "64 word"

text \<open>
  Modelled from the spec: the module \<open>dfpyre/items.py\<close> (the TypedValue classes with their
  constructors \<open>text\<close>, \<open>num\<close>, \<open>var\<close>, their attribute \<open>type\<close> and their method
  \<open>format(slot)\<close>) is not part of the sources. The spec names the variants and says that
  each value "carries a type tag plus variant-specific payload and knows how to render
  itself into a slot-indexed wire representation". \<open>text_item\<close>, \<open>num_item\<close> and \<open>var_item\<close>
  are the three constructors that \<open>pyre.py\<close> calls (\<open>var_item name scope\<close>);
  \<open>typed_item tag payload\<close> is any other TypedValue, with its type tag.
\<close>

datatype item =
    text_item string
  | num_item pynumber
  | var_item string string
  | typed_item string string

text \<open>Modelled from the spec: the attribute \<open>type\<close> of a TypedValue (the tags are those of
  \<open>VARIABLE_TYPES\<close>).\<close>

fun item_type :: "item \<Rightarrow> string" where
  "item_type (text_item _) = ''txt''"
| "item_type (num_item _) = ''num''"
| "item_type (var_item _ _) = ''var''"
| "item_type (typed_item tag _) = tag"

text \<open>A value that a caller hands to a builder method: a number, a string, a TypedValue,
  or something else (\<open>True\<close>, \<open>None\<close>).\<close>

datatype pyobj =
    PInt int
  | PFloat "64 word"
  | PStr string
  | PItem item
  | PBool bool
  | PNone

text \<open>
  Modelled from the spec: the method \<open>format(slot)\<close> of a TypedValue is in the missing
  \<open>items.py\<close>; the spec says that a value renders "itself into a slot-indexed wire
  representation". The layout of the rendered dictionary is not known, so the rendered
  entry \<open>Formatted x slot\<close> records the value and the slot it was rendered at. The other
  entries of a block's \<open>items\<close> list are the tags taken from the schema file \<open>data.json\<close>.
\<close>

datatype 'tag entry = Formatted item nat | Tag 'tag

text \<open>Modelled from the spec: \<open>arg.format(slot)\<close>.\<close>

definition format :: "item \<Rightarrow> nat \<Rightarrow> 'tag entry" where
  "format x slot = Formatted x slot"


text \<open>A value of a block dictionary: a string or \<open>None\<close> copied from the command's data, or
  the dictionary \<open>{'items': [...]}\<close> under the key \<open>args\<close>.\<close>

datatype 'tag bval = Val "string option" | Args "'tag entry list"

type_synonym 'tag block = "(string \<times> 'tag bval) list"

definition dict_get :: "('k \<times> 'v) list \<Rightarrow> 'k \<Rightarrow> pyerr + 'v" where
  "dict_get d k = (case map_of d k of None \<Rightarrow> Inl KeyError | Some v \<Rightarrow> Inr v)"

text \<open>\<open>d.get(k)\<close> on a dictionary of strings: \<open>None\<close> when the key is missing, and when its
  value is \<open>None\<close>.\<close>

definition dict_get_or_none :: "('k \<times> 'v option) list \<Rightarrow> 'k \<Rightarrow> 'v option" where
  "dict_get_or_none d k = (case map_of d k of None \<Rightarrow> None | Some v \<Rightarrow> v)"

text \<open>\<open>xs[:k]\<close>: a negative bound counts from the end, and the bound is clamped.\<close>

definition py_slice_to :: "'a list \<Rightarrow> int \<Rightarrow> 'a list" where
  "py_slice_to xs k = (if k < 0 then take (nat (int (length xs) + k)) xs else take (nat k) xs)"

definition VARIABLE_TYPES :: "string set" where
  "VARIABLE_TYPES = {''txt'', ''num'', ''item'', ''loc'', ''var'', ''snd'', ''part'', ''pot'',
     ''g_val'', ''vec''}"

definition TEMPLATE_STARTERS :: "string set" where
  "TEMPLATE_STARTERS = {''event'', ''entity_event'', ''func'', ''process''}"

subsection \<open>The schema table\<close>

text \<open>
  \<open>_loadCodeblockData\<close> reads \<open>data.json\<close> when the file exists: a dictionary from block
  type to a dictionary from action name to a list of tags, with the block types of the
  reserved key \<open>extras\<close> in the place of action names. The file is not part of the
  sources; its parsed content is the argument (\<open>None\<close> when the file does not exist).
\<close>

record 'tag codeblock_data =
  TAGDATA :: "string \<rightharpoonup> (string \<rightharpoonup> 'tag list)"
  TAGDATA_KEYS :: "string set"
  TAGDATA_EXTRAS_KEYS :: "string set"

definition loadCodeblockData ::
  "(string \<rightharpoonup> (string \<rightharpoonup> 'tag list)) option \<Rightarrow> pyerr + 'tag codeblock_data" where
  "loadCodeblockData file =
     (case file of
        None \<Rightarrow> Inr \<lparr>TAGDATA = Map.empty, TAGDATA_KEYS = {}, TAGDATA_EXTRAS_KEYS = {}\<rparr>
      | Some tagData \<Rightarrow>
          (case tagData ''extras'' of
             None \<Rightarrow> Inl KeyError
           | Some extras \<Rightarrow>
               Inr \<lparr>TAGDATA = tagData, TAGDATA_KEYS = dom tagData,
                    TAGDATA_EXTRAS_KEYS = dom extras\<rparr>))"

subsection \<open>Code blocks and the template\<close>

text \<open>\<open>CodeBlock.__init__(self, name, *args, target='Default', data={})\<close>: \<open>args\<close> is the
  tuple of the positional arguments, empty or holding the one converted argument tuple.\<close>

record CodeBlock =
  name :: string
  args :: "pyobj list list"
  target :: string
  data :: "(string \<times> string option) list"

definition CodeBlock_init ::
  "string \<Rightarrow> pyobj list list \<Rightarrow> string \<Rightarrow> (string \<times> string option) list \<Rightarrow> CodeBlock" where
  "CodeBlock_init nm xs tgt d = \<lparr>name = nm, args = xs, target = tgt, data = d\<rparr>"

record DFTemplate =
  commands :: "CodeBlock list"
  closebracket :: "string option"
  definedVars :: "(string \<times> item) list"

definition DFTemplate_init :: DFTemplate where
  "DFTemplate_init = \<lparr>commands = [], closebracket = None, definedVars = []\<rparr>"

definition clear :: "DFTemplate \<Rightarrow> DFTemplate" where
  "clear t = DFTemplate_init"

definition append_command :: "DFTemplate \<Rightarrow> CodeBlock \<Rightarrow> DFTemplate" where
  "append_command t cmd = t\<lparr>commands := commands t @ [cmd]\<rparr>"

subsection \<open>Argument conversion\<close>

text \<open>One round of the loop of \<open>_convertDataTypes\<close>. \<open>element[0]\<close> raises \<open>IndexError\<close> on
  the empty string, \<open>self.definedVars[element[1:]]\<close> raises \<open>KeyError\<close> on an unknown name.\<close>

fun convert_element :: "DFTemplate \<Rightarrow> pyobj \<Rightarrow> pyerr + pyobj" where
  "convert_element t (PInt i) = Inr (PItem (num_item (NInt i)))"
| "convert_element t (PFloat f) = Inr (PItem (num_item (NFloat f)))"
| "convert_element t (PStr element) =
     (case element of
        [] \<Rightarrow> Inl IndexError
      | c # rest \<Rightarrow>
          if c = CHR ''^'' then
            (case dict_get (definedVars t) rest of Inl e \<Rightarrow> Inl e | Inr v \<Rightarrow> Inr (PItem v))
          else Inr (PItem (text_item element)))"
| "convert_element t element = Inr element"

fun convertDataTypes :: "DFTemplate \<Rightarrow> pyobj list \<Rightarrow> pyerr + pyobj list" where
  "convertDataTypes t [] = Inr []"
| "convertDataTypes t (element # lst) =
     (case convert_element t element of
        Inl e \<Rightarrow> Inl e
      | Inr v \<Rightarrow>
          (case convertDataTypes t lst of
             Inl e \<Rightarrow> Inl e
           | Inr retList \<Rightarrow> Inr (v # retList)))"

subsection \<open>Builder methods\<close>

definition openbracket :: "DFTemplate \<Rightarrow> string \<Rightarrow> DFTemplate" where
  "openbracket t btype =
     (append_command t (CodeBlock_init ''Bracket'' [] ''Default''
        [(''id'', Some ''bracket''), (''direct'', Some ''open''), (''type'', Some btype)]))
     \<lparr>closebracket := Some btype\<rparr>"

definition playerEvent :: "DFTemplate \<Rightarrow> string \<Rightarrow> DFTemplate" where
  "playerEvent t nm = append_command t (CodeBlock_init nm [] ''Default''
     [(''id'', Some ''block''), (''block'', Some ''event''), (''action'', Some nm)])"

definition entityEvent :: "DFTemplate \<Rightarrow> string \<Rightarrow> DFTemplate" where
  "entityEvent t nm = append_command t (CodeBlock_init nm [] ''Default''
     [(''id'', Some ''block''), (''block'', Some ''entity_event''), (''action'', Some nm)])"

definition function_fn :: "DFTemplate \<Rightarrow> string \<Rightarrow> DFTemplate" where
  "function_fn t nm = append_command t (CodeBlock_init ''function'' [] ''Default''
     [(''id'', Some ''block''), (''block'', Some ''func''), (''data'', Some nm)])"

definition process :: "DFTemplate \<Rightarrow> string \<Rightarrow> DFTemplate" where
  "process t nm = append_command t (CodeBlock_init ''process'' [] ''Default''
     [(''id'', Some ''block''), (''block'', Some ''process''), (''data'', Some nm)])"

definition startProcess :: "DFTemplate \<Rightarrow> string \<Rightarrow> DFTemplate" where
  "startProcess t nm = append_command t (CodeBlock_init ''start_process'' [] ''Default''
     [(''id'', Some ''block''), (''block'', Some ''start_process''), (''data'', Some nm)])"

text \<open>The methods with variadic arguments share one shape: convert the arguments, build
  the block with the converted tuple as its one positional argument, append it.\<close>

definition playerAction :: "DFTemplate \<Rightarrow> string \<Rightarrow> pyobj list \<Rightarrow> string \<Rightarrow> pyerr + DFTemplate" where
  "playerAction t nm xs tgt =
     (case convertDataTypes t xs of
        Inl e \<Rightarrow> Inl e
      | Inr as \<Rightarrow> Inr (append_command t (CodeBlock_init nm [as] tgt
          [(''id'', Some ''block''), (''block'', Some ''player_action''), (''action'', Some nm)])))"

definition gameAction :: "DFTemplate \<Rightarrow> string \<Rightarrow> pyobj list \<Rightarrow> pyerr + DFTemplate" where
  "gameAction t nm xs =
     (case convertDataTypes t xs of
        Inl e \<Rightarrow> Inl e
      | Inr as \<Rightarrow> Inr (append_command t (CodeBlock_init nm [as] ''Default''
          [(''id'', Some ''block''), (''block'', Some ''game_action''), (''action'', Some nm)])))"

definition entityAction :: "DFTemplate \<Rightarrow> string \<Rightarrow> pyobj list \<Rightarrow> pyerr + DFTemplate" where
  "entityAction t nm xs =
     (case convertDataTypes t xs of
        Inl e \<Rightarrow> Inl e
      | Inr as \<Rightarrow> Inr (append_command t (CodeBlock_init nm [as] ''Default''
          [(''id'', Some ''block''), (''block'', Some ''entity_action''), (''action'', Some nm)])))"

definition ifPlayer :: "DFTemplate \<Rightarrow> string \<Rightarrow> pyobj list \<Rightarrow> string \<Rightarrow> pyerr + DFTemplate" where
  "ifPlayer t nm xs tgt =
     (case convertDataTypes t xs of
        Inl e \<Rightarrow> Inl e
      | Inr as \<Rightarrow> Inr (openbracket (append_command t (CodeBlock_init nm [as] tgt
          [(''id'', Some ''block''), (''block'', Some ''if_player''), (''action'', Some nm)]))
          ''norm''))"

definition ifVariable :: "DFTemplate \<Rightarrow> string \<Rightarrow> pyobj list \<Rightarrow> pyerr + DFTemplate" where
  "ifVariable t nm xs =
     (case convertDataTypes t xs of
        Inl e \<Rightarrow> Inl e
      | Inr as \<Rightarrow> Inr (openbracket (append_command t (CodeBlock_init nm [as] ''Default''
          [(''id'', Some ''block''), (''block'', Some ''if_var''), (''action'', Some nm)]))
          ''norm''))"

definition ifGame :: "DFTemplate \<Rightarrow> string \<Rightarrow> pyobj list \<Rightarrow> pyerr + DFTemplate" where
  "ifGame t nm xs =
     (case convertDataTypes t xs of
        Inl e \<Rightarrow> Inl e
      | Inr as \<Rightarrow> Inr (openbracket (append_command t (CodeBlock_init nm [as] ''Default''
          [(''id'', Some ''block''), (''block'', Some ''if_game''), (''action'', Some nm)]))
          ''norm''))"

definition ifEntity :: "DFTemplate \<Rightarrow> string \<Rightarrow> pyobj list \<Rightarrow> pyerr + DFTemplate" where
  "ifEntity t nm xs =
     (case convertDataTypes t xs of
        Inl e \<Rightarrow> Inl e
      | Inr as \<Rightarrow> Inr (openbracket (append_command t (CodeBlock_init nm [as] ''Default''
          [(''id'', Some ''block''), (''block'', Some ''if_entity''), (''action'', Some nm)]))
          ''norm''))"

definition else_fn :: "DFTemplate \<Rightarrow> DFTemplate" where
  "else_fn t = openbracket (append_command t (CodeBlock_init ''else'' [] ''Default''
     [(''id'', Some ''block''), (''block'', Some ''else'')])) ''norm''"

text \<open>\<open>repeat(name, *args, subAction=None)\<close>: the key \<open>subAction\<close> is set after the three
  keys of the literal, and only when a sub-action is given.\<close>

definition repeat :: "DFTemplate \<Rightarrow> string \<Rightarrow> pyobj list \<Rightarrow> string option \<Rightarrow> pyerr + DFTemplate" where
  "repeat t nm xs subAction =
     (case convertDataTypes t xs of
        Inl e \<Rightarrow> Inl e
      | Inr as \<Rightarrow>
          (let d0 = [(''id'', Some ''block''), (''block'', Some ''repeat''), (''action'', Some nm)];
               d = (case subAction of None \<Rightarrow> d0
                    | Some sa \<Rightarrow> AList.update ''subAction'' (Some sa) d0)
           in Inr (openbracket (append_command t (CodeBlock_init nm [as] ''Default'' d))
                ''repeat'')))"

text \<open>\<open>bracket(*args)\<close> converts its arguments and then ignores them.\<close>

definition bracket :: "DFTemplate \<Rightarrow> pyobj list \<Rightarrow> pyerr + DFTemplate" where
  "bracket t xs =
     (case convertDataTypes t xs of
        Inl e \<Rightarrow> Inl e
      | Inr as \<Rightarrow> Inr (append_command t (CodeBlock_init ''Bracket'' [] ''Default''
          [(''id'', Some ''bracket''), (''direct'', Some ''close''),
           (''type'', closebracket t)])))"

definition control :: "DFTemplate \<Rightarrow> string \<Rightarrow> pyobj list \<Rightarrow> pyerr + DFTemplate" where
  "control t nm xs =
     (case convertDataTypes t xs of
        Inl e \<Rightarrow> Inl e
      | Inr as \<Rightarrow> Inr (append_command t (CodeBlock_init nm [as] ''Default''
          [(''id'', Some ''block''), (''block'', Some ''control''), (''action'', Some nm)])))"

definition selectObject :: "DFTemplate \<Rightarrow> string \<Rightarrow> pyobj list \<Rightarrow> pyerr + DFTemplate" where
  "selectObject t nm xs =
     (case convertDataTypes t xs of
        Inl e \<Rightarrow> Inl e
      | Inr as \<Rightarrow> Inr (append_command t (CodeBlock_init nm [as] ''Default''
          [(''id'', Some ''block''), (''block'', Some ''select_obj''), (''action'', Some nm)])))"

definition setVariable :: "DFTemplate \<Rightarrow> string \<Rightarrow> pyobj list \<Rightarrow> pyerr + DFTemplate" where
  "setVariable t nm xs =
     (case convertDataTypes t xs of
        Inl e \<Rightarrow> Inl e
      | Inr as \<Rightarrow> Inr (append_command t (CodeBlock_init nm [as] ''Default''
          [(''id'', Some ''block''), (''block'', Some ''set_var''), (''action'', Some nm)])))"

text \<open>The loop \<open>for key in parameters.keys(): self.setVariable('=', var(key, scope='local'),
  parameters[key])\<close> of \<open>callFunction\<close>, which \<open>return_\<close> runs too. A block appended before a
  later round raises stays appended in Python; \<open>set_locals\<close> returns the error alone, and
  \<open>set_locals_reached\<close> below gives the template that is left.\<close>

fun set_locals :: "DFTemplate \<Rightarrow> (string \<times> pyobj) list \<Rightarrow> string list \<Rightarrow> pyerr + DFTemplate" where
  "set_locals t parameters [] = Inr t"
| "set_locals t parameters (key # keys) =
     (case dict_get parameters key of
        Inl e \<Rightarrow> Inl e
      | Inr v \<Rightarrow>
          (case setVariable t ''='' [PItem (var_item key ''local''), v] of
             Inl e \<Rightarrow> Inl e
           | Inr t' \<Rightarrow> set_locals t' parameters keys))"

definition callFunction :: "DFTemplate \<Rightarrow> string \<Rightarrow> (string \<times> pyobj) list \<Rightarrow> pyerr + DFTemplate" where
  "callFunction t nm parameters =
     (case (if parameters \<noteq> [] then set_locals t parameters (map fst parameters) else Inr t) of
        Inl e \<Rightarrow> Inl e
      | Inr t' \<Rightarrow> Inr (append_command t' (CodeBlock_init ''call_func'' [] ''Default''
          [(''id'', Some ''block''), (''block'', Some ''call_func''), (''data'', Some nm)])))"

text \<open>
  Python changes the template in place, so the blocks that a call appended before it
  raised stay in \<open>self.commands\<close>. \<open>set_locals_reached\<close> is the template as the loop of
  \<open>callFunction\<close> leaves it, whether it ends or raises; \<open>callFunction_reached\<close> is the
  template as \<open>callFunction\<close> leaves it.
\<close>

fun set_locals_reached :: "DFTemplate \<Rightarrow> (string \<times> pyobj) list \<Rightarrow> string list \<Rightarrow> DFTemplate" where
  "set_locals_reached t parameters [] = t"
| "set_locals_reached t parameters (key # keys) =
     (case dict_get parameters key of
        Inl e \<Rightarrow> t
      | Inr v \<Rightarrow>
          (case setVariable t ''='' [PItem (var_item key ''local''), v] of
             Inl e \<Rightarrow> t
           | Inr t' \<Rightarrow> set_locals_reached t' parameters keys))"

definition callFunction_reached ::
  "DFTemplate \<Rightarrow> string \<Rightarrow> (string \<times> pyobj) list \<Rightarrow> DFTemplate" where
  "callFunction_reached t nm parameters =
     (case (if parameters \<noteq> [] then set_locals t parameters (map fst parameters) else Inr t) of
        Inl e \<Rightarrow> set_locals_reached t parameters (map fst parameters)
      | Inr t' \<Rightarrow> append_command t' (CodeBlock_init ''call_func'' [] ''Default''
          [(''id'', Some ''block''), (''block'', Some ''call_func''), (''data'', Some nm)]))"

definition return_fn :: "DFTemplate \<Rightarrow> (string \<times> pyobj) list \<Rightarrow> pyerr + DFTemplate" where
  "return_fn t returndata =
     (case set_locals t returndata (map fst returndata) of
        Inl e \<Rightarrow> Inl e
      | Inr t' \<Rightarrow> control t' ''Return'' [])"

definition define_fn :: "DFTemplate \<Rightarrow> string \<Rightarrow> pyobj \<Rightarrow> string \<Rightarrow> bool \<Rightarrow> pyerr + DFTemplate" where
  "define_fn t nm v scope createSetVar =
     (case (if createSetVar then setVariable t ''='' [PItem (var_item nm scope), v] else Inr t) of
        Inl e \<Rightarrow> Inl e
      | Inr t' \<Rightarrow>
          Inr (t'\<lparr>definedVars := AList.update nm (var_item nm scope) (definedVars t')\<rparr>))"

subsection \<open>build\<close>

text \<open>\<open>_warn\<close> prints a message and goes on; the model collects the warnings. The hint
  that \<open>difflib.get_close_matches\<close> adds to the first message is left out.\<close>

datatype warning = NameNotRecognized string | NoTemplateStarter

text \<open>\<open>for key in cmd.data.keys(): block[key] = cmd.data[key]\<close>\<close>

definition copy_data :: "(string \<times> string option) list \<Rightarrow> 'tag block \<Rightarrow> 'tag block" where
  "copy_data d block = fold (\<lambda>(key, v). AList.update key (Val v)) d block"

text \<open>Lines 104 to 106: the bracket data.\<close>

definition bracket_data :: "CodeBlock \<Rightarrow> 'tag block \<Rightarrow> pyerr + 'tag block" where
  "bracket_data cmd block =
     (if dict_get_or_none (data cmd) ''direct'' \<noteq> None then
        (case dict_get (data cmd) ''direct'' of
           Inl e \<Rightarrow> Inl e
         | Inr dv \<Rightarrow>
             (case dict_get (data cmd) ''type'' of
                Inl e \<Rightarrow> Inl e
              | Inr ty \<Rightarrow>
                  Inr (AList.update ''type'' (Val ty) (AList.update ''direct'' (Val dv) block))))
      else Inr block)"

text \<open>Lines 109 to 111: the target.\<close>

definition add_target :: "CodeBlock \<Rightarrow> 'tag block \<Rightarrow> 'tag block" where
  "add_target cmd block =
     (if dict_get_or_none (data cmd) ''block'' \<noteq> Some ''event'' then
        (if target cmd \<noteq> ''Default'' then AList.update ''target'' (Val (Some (target cmd))) block
         else block)
      else block)"

text \<open>\<open>block['args']['items'].append(app)\<close>: a string or \<open>None\<close> under \<open>args\<close> cannot be
  indexed by \<open>'items'\<close>.\<close>

definition append_item :: "'tag block \<Rightarrow> 'tag entry \<Rightarrow> pyerr + 'tag block" where
  "append_item block app =
     (case dict_get block ''args'' of
        Inl e \<Rightarrow> Inl e
      | Inr (Val _) \<Rightarrow> Inl TypeError
      | Inr (Args items) \<Rightarrow> Inr (AList.update ''args'' (Args (items @ [app])) block))"

text \<open>Lines 117 to 123: the loop over the converted arguments. An argument without the
  attribute \<open>type\<close> raises \<open>AttributeError\<close>; the slot advances for every argument.\<close>

fun add_items :: "pyobj list \<Rightarrow> nat \<Rightarrow> 'tag block \<Rightarrow> pyerr + 'tag block" where
  "add_items [] slot block = Inr block"
| "add_items (arg # rest) slot block =
     (case arg of
        PItem x \<Rightarrow>
          (case (if item_type x \<in> VARIABLE_TYPES then append_item block (format x slot)
                 else Inr block) of
             Inl e \<Rightarrow> Inl e
           | Inr block' \<Rightarrow> add_items rest (Suc slot) block')
      | _ \<Rightarrow> Inl AttributeError)"

text \<open>Lines 126 to 137: the lookup of the tags of a block.\<close>

definition find_tags ::
  "'tag codeblock_data \<Rightarrow> CodeBlock \<Rightarrow> pyerr + ('tag list option \<times> warning list)" where
  "find_tags cd cmd =
     (case dict_get_or_none (data cmd) ''block'' of
        None \<Rightarrow> Inr (None, [])
      | Some blockType \<Rightarrow>
          if blockType \<in> TAGDATA_EXTRAS_KEYS cd then
            (case TAGDATA cd ''extras'' of
               None \<Rightarrow> Inl KeyError
             | Some extras \<Rightarrow>
                 (case extras blockType of
                    None \<Rightarrow> Inl KeyError
                  | Some tags \<Rightarrow> Inr (Some tags, [])))
          else if blockType \<in> TAGDATA_KEYS cd then
            (case TAGDATA cd blockType of
               None \<Rightarrow> Inl KeyError
             | Some actions \<Rightarrow>
                 (case actions (name cmd) of
                    None \<Rightarrow> Inr (None, [NameNotRecognized (name cmd)])
                  | Some tags \<Rightarrow> Inr (Some tags, [])))
          else Inr (None, []))"

text \<open>Lines 139 to 142: trim the items, then add the tags to the end.\<close>

definition set_tags :: "'tag list \<Rightarrow> 'tag block \<Rightarrow> pyerr + 'tag block" where
  "set_tags tags block =
     (case dict_get block ''args'' of
        Inl e \<Rightarrow> Inl e
      | Inr (Val _) \<Rightarrow> Inl TypeError
      | Inr (Args items) \<Rightarrow>
          (let items' = (if length items > 27 then py_slice_to items (26 - int (length tags))
                         else items)
           in Inr (AList.update ''args'' (Args (items' @ map Tag tags)) block)))"

text \<open>The first part of one round of the loop of \<open>build\<close> (lines 97 to 123): the block
  with the keys of the command's data, the bracket data, the target and the rendered
  arguments, before the tags.\<close>

definition render_block :: "CodeBlock \<Rightarrow> pyerr + 'tag block" where
  "render_block cmd =
     (case bracket_data cmd (copy_data (data cmd) [(''args'', Args [])]) of
        Inl e \<Rightarrow> Inl e
      | Inr block \<Rightarrow>
          (case args cmd of
             [] \<Rightarrow> Inr (add_target cmd block)
           | as # _ \<Rightarrow> add_items as 0 (add_target cmd block)))"

text \<open>One round of the loop of \<open>build\<close> (lines 97 to 144).\<close>

definition build_block ::
  "'tag codeblock_data \<Rightarrow> CodeBlock \<Rightarrow> pyerr + ('tag block \<times> warning list)" where
  "build_block cd cmd =
     (case render_block cmd of
        Inl e \<Rightarrow> Inl e
      | Inr block \<Rightarrow>
          (case find_tags cd cmd of
             Inl e \<Rightarrow> Inl e
           | Inr (tags, ws) \<Rightarrow>
               (case (case tags of None \<Rightarrow> Inr block | Some tgs \<Rightarrow> set_tags tgs block) of
                  Inl e \<Rightarrow> Inl e
                | Inr block' \<Rightarrow> Inr (block', ws))))"

fun build_blocks ::
  "'tag codeblock_data \<Rightarrow> CodeBlock list \<Rightarrow> pyerr + ('tag block list \<times> warning list)" where
  "build_blocks cd [] = Inr ([], [])"
| "build_blocks cd (cmd # cmds) =
     (case build_block cd cmd of
        Inl e \<Rightarrow> Inl e
      | Inr (block, ws) \<Rightarrow>
          (case build_blocks cd cmds of
             Inl e \<Rightarrow> Inl e
           | Inr (blocks, ws') \<Rightarrow> Inr (block # blocks, ws @ ws')))"

text \<open>Lines 148 to 155: the name of the template. \<open>mainDict['blocks'][0]\<close> raises
  \<open>IndexError\<close> on the empty list, \<open>[...]['block']\<close> raises \<open>KeyError\<close> when the first block
  has no such key; only the \<open>KeyError\<close> of \<open>['action']\<close> is caught.\<close>

definition template_name :: "'tag block list \<Rightarrow> pyerr + ('tag bval \<times> warning list)" where
  "template_name blocks =
     (case blocks of
        [] \<Rightarrow> Inl IndexError
      | first # _ \<Rightarrow>
          (case dict_get first ''block'' of
             Inl e \<Rightarrow> Inl e
           | Inr (Args _) \<Rightarrow> Inl TypeError
           | Inr (Val None) \<Rightarrow> Inr (Val (Some ''Unnamed''), [NoTemplateStarter])
           | Inr (Val (Some b)) \<Rightarrow>
               if b \<notin> TEMPLATE_STARTERS then Inr (Val (Some ''Unnamed''), [NoTemplateStarter])
               else
                 (case dict_get first ''action'' of
                    Inl e \<Rightarrow>
                      (case dict_get first ''data'' of
                         Inl e' \<Rightarrow> Inl e'
                       | Inr d \<Rightarrow> Inr (d, []))
                  | Inr (Val (Some a)) \<Rightarrow> Inr (Val (Some (b @ ''_'' @ a)), [])
                  | Inr _ \<Rightarrow> Inl TypeError)))"

text \<open>
  \<open>build\<close> returns the pair of \<open>self._compress(str(mainDict))\<close> and the template name.
  The first is the result of library functions (\<open>str\<close>, \<open>gzip.compress\<close>,
  \<open>base64.b64encode\<close>) on the dictionary \<open>mainDict\<close>; the model returns the list under the
  one key \<open>blocks\<close> of \<open>mainDict\<close> in its place, and the warnings printed on the way.
\<close>

record 'tag build_result =
  mainDict :: "'tag block list"
  templateName :: "'tag bval"
  warnings :: "warning list"

definition build :: "'tag codeblock_data \<Rightarrow> DFTemplate \<Rightarrow> pyerr + 'tag build_result" where
  "build cd t =
     (case build_blocks cd (commands t) of
        Inl e \<Rightarrow> Inl e
      | Inr (blocks, ws) \<Rightarrow>
          (case template_name blocks of
             Inl e \<Rightarrow> Inl e
           | Inr (nm, ws') \<Rightarrow>
               Inr \<lparr>mainDict = blocks, templateName = nm, warnings = ws @ ws'\<rparr>))"

subsection \<open>Scripts\<close>

text \<open>A program that uses the builder calls its methods one after the other on one
  template. \<open>call\<close> is one such call, with the arguments the method takes in Python
  (keyword arguments included); \<open>run\<close> stops at the first call that raises.\<close>

datatype method_call =
    PlayerEvent string
  | EntityEvent string
  | Function string
  | Process string
  | CallFunction string "(string \<times> pyobj) list"
  | StartProcess string
  | PlayerAction string "pyobj list" string
  | GameAction string "pyobj list"
  | EntityAction string "pyobj list"
  | IfPlayer string "pyobj list" string
  | IfVariable string "pyobj list"
  | IfGame string "pyobj list"
  | IfEntity string "pyobj list"
  | Else
  | Repeat string "pyobj list" "string option"
  | Bracket "pyobj list"
  | Control string "pyobj list"
  | SelectObject string "pyobj list"
  | SetVariable string "pyobj list"
  | Return "(string \<times> pyobj) list"
  | Define string pyobj string bool
  | Clear

fun call :: "DFTemplate \<Rightarrow> method_call \<Rightarrow> pyerr + DFTemplate" where
  "call t (PlayerEvent nm) = Inr (playerEvent t nm)"
| "call t (EntityEvent nm) = Inr (entityEvent t nm)"
| "call t (Function nm) = Inr (function_fn t nm)"
| "call t (Process nm) = Inr (process t nm)"
| "call t (CallFunction nm parameters) = callFunction t nm parameters"
| "call t (StartProcess nm) = Inr (startProcess t nm)"
| "call t (PlayerAction nm xs tgt) = playerAction t nm xs tgt"
| "call t (GameAction nm xs) = gameAction t nm xs"
| "call t (EntityAction nm xs) = entityAction t nm xs"
| "call t (IfPlayer nm xs tgt) = ifPlayer t nm xs tgt"
| "call t (IfVariable nm xs) = ifVariable t nm xs"
| "call t (IfGame nm xs) = ifGame t nm xs"
| "call t (IfEntity nm xs) = ifEntity t nm xs"
| "call t Else = Inr (else_fn t)"
| "call t (Repeat nm xs subAction) = repeat t nm xs subAction"
| "call t (Bracket xs) = bracket t xs"
| "call t (Control nm xs) = control t nm xs"
| "call t (SelectObject nm xs) = selectObject t nm xs"
| "call t (SetVariable nm xs) = setVariable t nm xs"
| "call t (Return returndata) = return_fn t returndata"
| "call t (Define nm v scope createSetVar) = define_fn t nm v scope createSetVar"
| "call t Clear = Inr (clear t)"

fun run :: "DFTemplate \<Rightarrow> method_call list \<Rightarrow> pyerr + DFTemplate" where
  "run t [] = Inr t"
| "run t (c # cs) = (case call t c of Inl e \<Rightarrow> Inl e | Inr t' \<Rightarrow> run t' cs)"

text \<open>Whether a call is \<open>define_\<close> of the given name.\<close>

fun is_define :: "string \<Rightarrow> method_call \<Rightarrow> bool" where
  "is_define nm (Define nm' _ _ _) = (nm' = nm)"
| "is_define nm _ = False"

text \<open>The block that \<open>bracket\<close> appends, with the given \<open>type\<close> field.\<close>

abbreviation close_block :: "string option \<Rightarrow> CodeBlock" where
  "close_block ty \<equiv> CodeBlock_init ''Bracket'' [] ''Default''
     [(''id'', Some ''bracket''), (''direct'', Some ''close''), (''type'', ty)]"

text \<open>The block that \<open>callFunction\<close> and \<open>return_\<close> append for one key, with the
  converted value.\<close>

abbreviation set_local_block :: "string \<Rightarrow> pyobj \<Rightarrow> CodeBlock" where
  "set_local_block key a \<equiv> CodeBlock_init ''='' [[PItem (var_item key ''local''), a]] ''Default''
     [(''id'', Some ''block''), (''block'', Some ''set_var''), (''action'', Some ''='')]"

text \<open>The keys of the data of a block that a builder method makes with arguments (the
  three keys of the dictionary literal, and \<open>subAction\<close> for \<open>repeat\<close>).\<close>

definition builder_keys :: "CodeBlock \<Rightarrow> bool" where
  "builder_keys cmd \<longleftrightarrow>
     (args cmd \<noteq> [] \<longrightarrow> fst ` set (data cmd) \<subseteq> {''id'', ''block'', ''action'', ''subAction''})"

subsection \<open>Example inputs\<close>

text \<open>A schema table with one tag for the player action \<open>SendMessage\<close>, the template of
  \<open>playerEvent('Join')\<close> followed by \<open>playerAction('SendMessage', ...)\<close>, and the
  dictionaries \<open>build\<close> makes of its two blocks.\<close>

abbreviation example_schema :: "string codeblock_data" where
  "example_schema \<equiv>
     \<lparr>TAGDATA = [''extras'' \<mapsto> Map.empty,
                 ''player_action'' \<mapsto> [''SendMessage'' \<mapsto> [''Alignment Mode'']]],
      TAGDATA_KEYS = {''extras'', ''player_action''},
      TAGDATA_EXTRAS_KEYS = {}\<rparr>"

abbreviation example_event :: CodeBlock where
  "example_event \<equiv> CodeBlock_init ''Join'' [] ''Default''
     [(''id'', Some ''block''), (''block'', Some ''event''), (''action'', Some ''Join'')]"

abbreviation example_action :: "pyobj list \<Rightarrow> CodeBlock" where
  "example_action as \<equiv> CodeBlock_init ''SendMessage'' [as] ''Default''
     [(''id'', Some ''block''), (''block'', Some ''player_action''),
      (''action'', Some ''SendMessage'')]"

abbreviation example_template :: "pyobj list \<Rightarrow> DFTemplate" where
  "example_template as \<equiv>
     \<lparr>commands = [example_event, example_action as], closebracket = None, definedVars = []\<rparr>"

abbreviation example_event_block :: "string block" where
  "example_event_block \<equiv> [(''args'', Args []), (''id'', Val (Some ''block'')),
     (''block'', Val (Some ''event'')), (''action'', Val (Some ''Join''))]"

abbreviation example_action_block :: "string entry list \<Rightarrow> string block" where
  "example_action_block items \<equiv> [(''args'', Args items), (''id'', Val (Some ''block'')),
     (''block'', Val (Some ''player_action'')), (''action'', Val (Some ''SendMessage''))]"

section \<open>Brackets\<close>

lemma closebracket_openbracket: "closebracket (openbracket t btype) = Some btype"
  by (simp add: openbracket_def)

lemma closebracket_conditional:
  "ifPlayer t nm xs tgt = Inr t' \<Longrightarrow> closebracket t' = Some ''norm''"
  "ifVariable t nm xs = Inr t' \<Longrightarrow> closebracket t' = Some ''norm''"
  "ifGame t nm xs = Inr t' \<Longrightarrow> closebracket t' = Some ''norm''"
  "ifEntity t nm xs = Inr t' \<Longrightarrow> closebracket t' = Some ''norm''"
  "closebracket (else_fn t) = Some ''norm''"
  by (auto simp: ifPlayer_def ifVariable_def ifGame_def ifEntity_def else_fn_def
      closebracket_openbracket split: sum.splits)

lemma closebracket_repeat:
  "repeat t nm xs sa = Inr t' \<Longrightarrow> closebracket t' = Some ''repeat''"
  by (auto simp: repeat_def Let_def closebracket_openbracket split: sum.splits)

lemma bracket_no_args: "bracket t [] = Inr (append_command t (close_block (closebracket t)))"
  by (simp add: bracket_def)

lemma bracket_result:
  "bracket t ys = Inr t' \<Longrightarrow> t' = append_command t (close_block (closebracket t))"
  by (auto simp: bracket_def split: sum.splits)

text \<open>
  C10. \<open>bracket()\<close> on a template that was just created, or just cleared, raises nothing:
  it appends one closing bracket block whose \<open>type\<close> field is \<open>None\<close>, and \<open>build\<close> copies
  that \<open>None\<close> into the block's dictionary.
\<close>

theorem bracket_on_fresh_template:
  "bracket DFTemplate_init [] = Inr (DFTemplate_init\<lparr>commands := [close_block None]\<rparr>)
   \<and> bracket (clear t) [] = Inr (DFTemplate_init\<lparr>commands := [close_block None]\<rparr>)
   \<and> dict_get (data (close_block None)) ''type'' = Inr None
   \<and> build_block cd (close_block None) =
       Inr ([(''args'', Args []), (''id'', Val (Some ''bracket'')),
             (''direct'', Val (Some ''close'')), (''type'', Val None)], [])"
  by (simp add: bracket_def clear_def DFTemplate_init_def append_command_def CodeBlock_init_def
      dict_get_def build_block_def render_block_def copy_data_def bracket_data_def
      dict_get_or_none_def add_target_def find_tags_def)

subsection \<open>What a call leaves alone\<close>

lemmas simple_method_defs =
  playerEvent_def entityEvent_def function_fn_def process_def startProcess_def
  playerAction_def gameAction_def entityAction_def control_def selectObject_def
  setVariable_def

lemma setVariable_frame:
  "setVariable t nm xs = Inr t' \<Longrightarrow>
     closebracket t' = closebracket t \<and> definedVars t' = definedVars t"
  by (auto simp: setVariable_def append_command_def split: sum.splits)

lemma set_locals_frame:
  "set_locals t ps ks = Inr t' \<Longrightarrow>
     closebracket t' = closebracket t \<and> definedVars t' = definedVars t"
proof (induction ks arbitrary: t)
  case Nil
  then show ?case by simp
next
  case (Cons k ks)
  from Cons.prems obtain v t1 where
    sv: "setVariable t ''='' [PItem (var_item k ''local''), v] = Inr t1"
    and rest: "set_locals t1 ps ks = Inr t'"
    by (auto split: sum.splits)
  from Cons.IH [OF rest] setVariable_frame [OF sv] show ?case by simp
qed

lemma callFunction_frame:
  "callFunction t nm ps = Inr t' \<Longrightarrow>
     closebracket t' = closebracket t \<and> definedVars t' = definedVars t"
  by (auto simp: callFunction_def append_command_def split: sum.splits if_splits
      dest: set_locals_frame)

lemma control_frame:
  "control t nm xs = Inr t' \<Longrightarrow>
     closebracket t' = closebracket t \<and> definedVars t' = definedVars t"
  by (auto simp: control_def append_command_def split: sum.splits)

lemma return_frame:
  "return_fn t ps = Inr t' \<Longrightarrow>
     closebracket t' = closebracket t \<and> definedVars t' = definedVars t"
proof -
  assume r: "return_fn t ps = Inr t'"
  then obtain t1 where a: "set_locals t ps (map fst ps) = Inr t1"
    and b: "control t1 ''Return'' [] = Inr t'"
    by (auto simp: return_fn_def split: sum.splits)
  from set_locals_frame [OF a] control_frame [OF b] show ?thesis by simp
qed

lemma define_closebracket:
  "define_fn t nm v scope csv = Inr t' \<Longrightarrow> closebracket t' = closebracket t"
  by (auto simp: define_fn_def split: sum.splits if_splits dest: setVariable_frame)

text \<open>
  C9, as the code has it. The bracket state is the field \<open>closebracket\<close>: \<open>None\<close> is
  "no open bracket", \<open>Some flavor\<close> is "bracket open". Every opener sets it to its own
  flavor, whatever it was; \<open>bracket\<close> appends a closing block with the flavor it finds
  and leaves the state as it is; only \<open>clear\<close> brings the state back to \<open>None\<close>; no
  other call changes it.
\<close>

theorem closebracket_transitions:
  assumes "call t c = Inr t'"
  shows "closebracket t' =
           (case c of
              IfPlayer _ _ _ \<Rightarrow> Some ''norm''
            | IfVariable _ _ \<Rightarrow> Some ''norm''
            | IfGame _ _ \<Rightarrow> Some ''norm''
            | IfEntity _ _ \<Rightarrow> Some ''norm''
            | Else \<Rightarrow> Some ''norm''
            | Repeat _ _ _ \<Rightarrow> Some ''repeat''
            | Clear \<Rightarrow> None
            | _ \<Rightarrow> closebracket t)
         \<and> (\<forall>ys. c = Bracket ys \<longrightarrow>
               commands t' = commands t @ [close_block (closebracket t)])"
proof (cases c)
  case (CallFunction nm ps)
  with assms show ?thesis by (auto dest: callFunction_frame)
next
  case (Return ps)
  with assms show ?thesis by (auto dest: return_frame)
next
  case (Define nm v scope csv)
  with assms show ?thesis by (auto dest: define_closebracket)
next
  case (Bracket ys)
  with assms show ?thesis by (auto dest!: bracket_result simp: append_command_def)
next
  case Clear
  with assms show ?thesis by (auto simp: clear_def DFTemplate_init_def)
qed (use assms in \<open>auto simp: simple_method_defs append_command_def closebracket_conditional
      closebracket_repeat split: sum.splits\<close>)

theorem closebracket_transitions_witness:
  "call (else_fn DFTemplate_init) (Bracket []) =
     Inr (append_command (else_fn DFTemplate_init) (close_block (Some ''norm'')))
   \<and> closebracket (append_command (else_fn DFTemplate_init) (close_block (Some ''norm''))) =
       Some ''norm''
   \<and> commands (append_command (else_fn DFTemplate_init) (close_block (Some ''norm''))) =
       commands (else_fn DFTemplate_init) @ [close_block (Some ''norm'')]"
  using closebracket_transitions [of "else_fn DFTemplate_init" "Bracket []"
      "append_command (else_fn DFTemplate_init) (close_block (Some ''norm''))"]
  by (simp add: bracket_def else_fn_def openbracket_def append_command_def)

text \<open>The claim as stated fails: after \<open>else_\<close> and \<open>bracket\<close> the state is still
  \<open>Some ''norm''\<close>, not the state without an open bracket.\<close>

theorem bracket_close_keeps_state_counterexample:
  "closebracket (else_fn DFTemplate_init) = Some ''norm''
   \<and> bracket (else_fn DFTemplate_init) [] =
       Inr (append_command (else_fn DFTemplate_init) (close_block (Some ''norm'')))
   \<and> closebracket (append_command (else_fn DFTemplate_init) (close_block (Some ''norm''))) \<noteq>
       None"
  by (simp add: bracket_def else_fn_def openbracket_def append_command_def)

text \<open>
  C4. After a call of \<open>ifPlayer\<close>, \<open>ifVariable\<close>, \<open>ifGame\<close>, \<open>ifEntity\<close> or \<open>else_\<close>
  that returned, \<open>bracket()\<close> returns, and \<open>bracket\<close> with any arguments that returns has
  appended one closing bracket block whose \<open>type\<close> field is \<open>norm\<close>; after \<open>repeat\<close> the
  field is \<open>repeat\<close>. The arguments of \<open>bracket\<close> have no part in it.
\<close>

theorem bracket_uses_opened_flavor:
  "((ifPlayer t nm xs tgt = Inr t' \<or> ifVariable t nm xs = Inr t' \<or> ifGame t nm xs = Inr t'
       \<or> ifEntity t nm xs = Inr t' \<or> else_fn t = t')
      \<longrightarrow> (\<exists>t''. bracket t' [] = Inr t'')
          \<and> (\<forall>ys t''. bracket t' ys = Inr t'' \<longrightarrow>
                commands t'' = commands t' @ [close_block (Some ''norm'')]
                \<and> dict_get (data (last (commands t''))) ''type'' = Inr (Some ''norm'')))
   \<and> (repeat t nm xs sa = Inr t'
      \<longrightarrow> (\<exists>t''. bracket t' [] = Inr t'')
          \<and> (\<forall>ys t''. bracket t' ys = Inr t'' \<longrightarrow>
                commands t'' = commands t' @ [close_block (Some ''repeat'')]
                \<and> dict_get (data (last (commands t''))) ''type'' = Inr (Some ''repeat'')))"
proof -
  have close: "commands t'' = commands t' @ [close_block (Some fl)]
      \<and> dict_get (data (last (commands t''))) ''type'' = Inr (Some fl)"
    if "closebracket t' = Some fl" and "bracket t' ys = Inr t''" for fl ys t''
    using bracket_result [OF that(2)] that(1)
    by (simp add: append_command_def CodeBlock_init_def dict_get_def)
  have returns: "\<exists>t''. bracket t' [] = Inr t''"
    by (simp add: bracket_no_args)
  have norm: "closebracket t' = Some ''norm''"
    if "ifPlayer t nm xs tgt = Inr t' \<or> ifVariable t nm xs = Inr t' \<or> ifGame t nm xs = Inr t'
       \<or> ifEntity t nm xs = Inr t' \<or> else_fn t = t'"
    using that closebracket_conditional by blast
  show ?thesis
    using close [OF norm] close [OF closebracket_repeat] returns by blast
qed

theorem bracket_uses_opened_flavor_witness:
  "ifPlayer DFTemplate_init ''IsSneaking'' [] ''Default'' =
     Inr (openbracket (append_command DFTemplate_init (CodeBlock_init ''IsSneaking'' [[]] ''Default''
        [(''id'', Some ''block''), (''block'', Some ''if_player''),
         (''action'', Some ''IsSneaking'')])) ''norm'')
   \<and> dict_get (data (last (commands (append_command
        (openbracket (append_command DFTemplate_init (CodeBlock_init ''IsSneaking'' [[]] ''Default''
          [(''id'', Some ''block''), (''block'', Some ''if_player''),
           (''action'', Some ''IsSneaking'')])) ''norm'')
        (close_block (Some ''norm'')))))) ''type'' = Inr (Some ''norm'')
   \<and> repeat DFTemplate_init ''Forever'' [] None =
     Inr (openbracket (append_command DFTemplate_init (CodeBlock_init ''Forever'' [[]] ''Default''
        [(''id'', Some ''block''), (''block'', Some ''repeat''),
         (''action'', Some ''Forever'')])) ''repeat'')
   \<and> bracket (openbracket (append_command DFTemplate_init (CodeBlock_init ''Forever'' [[]]
        ''Default'' [(''id'', Some ''block''), (''block'', Some ''repeat''),
         (''action'', Some ''Forever'')])) ''repeat'') [PStr ''norm''] =
     Inr (append_command (openbracket (append_command DFTemplate_init (CodeBlock_init ''Forever''
        [[]] ''Default'' [(''id'', Some ''block''), (''block'', Some ''repeat''),
         (''action'', Some ''Forever'')])) ''repeat'') (close_block (Some ''repeat'')))"
proof -
  let ?T1 = "openbracket (append_command DFTemplate_init (CodeBlock_init ''IsSneaking'' [[]]
        ''Default'' [(''id'', Some ''block''), (''block'', Some ''if_player''),
         (''action'', Some ''IsSneaking'')])) ''norm''"
  let ?T2 = "openbracket (append_command DFTemplate_init (CodeBlock_init ''Forever'' [[]]
        ''Default'' [(''id'', Some ''block''), (''block'', Some ''repeat''),
         (''action'', Some ''Forever'')])) ''repeat''"
  have o1: "ifPlayer DFTemplate_init ''IsSneaking'' [] ''Default'' = Inr ?T1"
    by (simp add: ifPlayer_def)
  have o2: "repeat DFTemplate_init ''Forever'' [] None = Inr ?T2"
    by (simp add: repeat_def)
  have b1: "bracket ?T1 [] = Inr (append_command ?T1 (close_block (Some ''norm'')))"
    by (simp add: bracket_def openbracket_def)
  have b2: "bracket ?T2 [PStr ''norm''] = Inr (append_command ?T2 (close_block (Some ''repeat'')))"
    by (simp add: bracket_def openbracket_def)
  have c1: "dict_get (data (last (commands (append_command ?T1 (close_block (Some ''norm''))))))
      ''type'' = Inr (Some ''norm'')"
    using bracket_uses_opened_flavor [of DFTemplate_init "''IsSneaking''" "[]" "''Default''" ?T1]
      o1 b1 by blast
  have c2: "commands (append_command ?T2 (close_block (Some ''repeat''))) =
      commands ?T2 @ [close_block (Some ''repeat'')]"
    using bracket_uses_opened_flavor [of DFTemplate_init "''Forever''" "[]" _ ?T2 None]
      o2 b2 by blast
  from o1 c1 o2 b2 show ?thesis by blast
qed

section \<open>Argument conversion\<close>

lemma convert_back_reference:
  "convert_element t (PStr (CHR ''^'' # nm)) =
     (case map_of (definedVars t) nm of None \<Rightarrow> Inl KeyError | Some v \<Rightarrow> Inr (PItem v))"
  by (simp add: dict_get_def split: option.splits)

lemma convertDataTypes_Inr_iff:
  "convertDataTypes t xs = Inr ys \<longleftrightarrow> list_all2 (\<lambda>x y. convert_element t x = Inr y) xs ys"
proof (induction xs arbitrary: ys)
  case Nil
  then show ?case by auto
next
  case (Cons x xs)
  show ?case
    by (auto simp: list_all2_Cons1 Cons.IH [symmetric] split: sum.splits)
qed

lemma convertDataTypes_fails:
  "x \<in> set xs \<Longrightarrow> convert_element t x = Inl e \<Longrightarrow> \<exists>e'. convertDataTypes t xs = Inl e'"
  by (induction xs) (auto split: sum.splits)

lemma define_definedVars:
  "define_fn t nm v scope csv = Inr t' \<Longrightarrow>
     definedVars t' = AList.update nm (var_item nm scope) (definedVars t)"
  by (auto simp: define_fn_def split: sum.splits if_splits dest: setVariable_frame)

lemma call_definedVars:
  assumes "call t c = Inr t'"
  shows "definedVars t' =
           (case c of
              Define nm v scope csv \<Rightarrow> AList.update nm (var_item nm scope) (definedVars t)
            | Clear \<Rightarrow> []
            | _ \<Rightarrow> definedVars t)"
proof (cases c)
  case (CallFunction nm ps)
  with assms show ?thesis by (auto dest: callFunction_frame)
next
  case (Return ps)
  with assms show ?thesis by (auto dest: return_frame)
next
  case (Define nm v scope csv)
  with assms show ?thesis by (auto dest: define_definedVars)
next
  case Clear
  with assms show ?thesis by (auto simp: clear_def DFTemplate_init_def)
qed (use assms in \<open>auto simp: simple_method_defs append_command_def ifPlayer_def ifVariable_def
      ifGame_def ifEntity_def else_fn_def repeat_def bracket_def openbracket_def Let_def
      split: sum.splits\<close>)

lemma run_append:
  "run t (cs @ ds) = (case run t cs of Inl e \<Rightarrow> Inl e | Inr t' \<Rightarrow> run t' ds)"
  by (induction cs arbitrary: t) (auto split: sum.splits)

lemma run_keeps_binding:
  "run t cs = Inr t' \<Longrightarrow> Clear \<notin> set cs \<Longrightarrow> \<forall>c\<in>set cs. \<not> is_define nm c \<Longrightarrow>
     map_of (definedVars t') nm = map_of (definedVars t) nm"
proof (induction cs arbitrary: t)
  case Nil
  then show ?case by simp
next
  case (Cons c cs)
  from Cons.prems(1) obtain t1 where c: "call t c = Inr t1" and r: "run t1 cs = Inr t'"
    by (auto split: sum.splits)
  have "map_of (definedVars t1) nm = map_of (definedVars t) nm"
    using call_definedVars [OF c] Cons.prems(2,3)
    by (cases c) (auto simp: update_conv)
  with Cons.IH [OF r] Cons.prems(2,3) show ?case by simp
qed

lemma run_keeps_undefined:
  "run t cs = Inr t' \<Longrightarrow> \<forall>c\<in>set cs. \<not> is_define nm c \<Longrightarrow> map_of (definedVars t) nm = None \<Longrightarrow>
     map_of (definedVars t') nm = None"
proof (induction cs arbitrary: t)
  case Nil
  then show ?case by simp
next
  case (Cons c cs)
  from Cons.prems(1) obtain t1 where c: "call t c = Inr t1" and r: "run t1 cs = Inr t'"
    by (auto split: sum.splits)
  have "map_of (definedVars t1) nm = None"
    using call_definedVars [OF c] Cons.prems(2,3)
    by (cases c) (auto simp: update_conv)
  with Cons.IH [OF r] Cons.prems(2) show ?case by simp
qed

text \<open>
  C3. In a template reached by a script of builder calls that all returned: when the
  script holds a call \<open>define_\<close> of the name, with no later \<open>clear\<close> and no later \<open>define_\<close>
  of the same name, the argument \<open>^name\<close> converts to the variable reference
  \<open>var(name, scope)\<close> that this \<open>define_\<close> stored; when the script holds no \<open>define_\<close> of the
  name, the conversion raises \<open>KeyError\<close> (the spec's UnknownReference), and the
  conversion of every argument list that holds \<open>^name\<close> fails.
\<close>

theorem back_reference_resolution:
  assumes "run DFTemplate_init script = Inr t"
  shows "(\<forall>pre v scope csv post.
            script = pre @ Define nm v scope csv # post \<and> Clear \<notin> set post
              \<and> (\<forall>c\<in>set post. \<not> is_define nm c) \<longrightarrow>
            convert_element t (PStr (CHR ''^'' # nm)) = Inr (PItem (var_item nm scope))
            \<and> convertDataTypes t [PStr (CHR ''^'' # nm)] = Inr [PItem (var_item nm scope)])
       \<and> ((\<forall>c\<in>set script. \<not> is_define nm c) \<longrightarrow>
            convert_element t (PStr (CHR ''^'' # nm)) = Inl KeyError
            \<and> convertDataTypes t [PStr (CHR ''^'' # nm)] = Inl KeyError
            \<and> (\<forall>xs. PStr (CHR ''^'' # nm) \<in> set xs \<longrightarrow> (\<exists>e. convertDataTypes t xs = Inl e)))"
proof (intro conjI allI impI)
  fix pre v scope csv post
  assume h: "script = pre @ Define nm v scope csv # post \<and> Clear \<notin> set post
      \<and> (\<forall>c\<in>set post. \<not> is_define nm c)"
  from assms h obtain t0 t1 where
    d: "define_fn t0 nm v scope csv = Inr t1" and r: "run t1 post = Inr t"
    by (auto simp: run_append split: sum.splits)
  have "map_of (definedVars t1) nm = Some (var_item nm scope)"
    using define_definedVars [OF d] by (simp add: update_conv)
  with run_keeps_binding [OF r, of nm] h
  have m: "map_of (definedVars t) nm = Some (var_item nm scope)" by simp
  then show "convert_element t (PStr (CHR ''^'' # nm)) = Inr (PItem (var_item nm scope))"
    by (simp only: convert_back_reference option.case)
  then show "convertDataTypes t [PStr (CHR ''^'' # nm)] = Inr [PItem (var_item nm scope)]"
    by simp
next
  assume h: "\<forall>c\<in>set script. \<not> is_define nm c"
  have m: "map_of (definedVars t) nm = None"
    using run_keeps_undefined [OF assms h] by (simp add: DFTemplate_init_def)
  then show e: "convert_element t (PStr (CHR ''^'' # nm)) = Inl KeyError"
    by (simp only: convert_back_reference option.case)
  then show "convertDataTypes t [PStr (CHR ''^'' # nm)] = Inl KeyError"
    by simp
  fix xs
  assume "PStr (CHR ''^'' # nm) \<in> set xs"
  then show "\<exists>e. convertDataTypes t xs = Inl e"
    using e by (rule convertDataTypes_fails)
qed

theorem back_reference_resolution_witness:
  "run DFTemplate_init [Define ''x'' (PInt 5) ''unsaved'' True, PlayerEvent ''Join''] =
     Inr \<lparr>commands =
        [CodeBlock_init ''='' [[PItem (var_item ''x'' ''unsaved''), PItem (num_item (NInt 5))]]
           ''Default'' [(''id'', Some ''block''), (''block'', Some ''set_var''),
             (''action'', Some ''='')],
         CodeBlock_init ''Join'' [] ''Default'' [(''id'', Some ''block''),
             (''block'', Some ''event''), (''action'', Some ''Join'')]],
        closebracket = None, definedVars = [(''x'', var_item ''x'' ''unsaved'')]\<rparr>
   \<and> convertDataTypes \<lparr>commands =
        [CodeBlock_init ''='' [[PItem (var_item ''x'' ''unsaved''), PItem (num_item (NInt 5))]]
           ''Default'' [(''id'', Some ''block''), (''block'', Some ''set_var''),
             (''action'', Some ''='')],
         CodeBlock_init ''Join'' [] ''Default'' [(''id'', Some ''block''),
             (''block'', Some ''event''), (''action'', Some ''Join'')]],
        closebracket = None, definedVars = [(''x'', var_item ''x'' ''unsaved'')]\<rparr>
       [PStr ''^x''] = Inr [PItem (var_item ''x'' ''unsaved'')]
   \<and> convertDataTypes \<lparr>commands =
        [CodeBlock_init ''='' [[PItem (var_item ''x'' ''unsaved''), PItem (num_item (NInt 5))]]
           ''Default'' [(''id'', Some ''block''), (''block'', Some ''set_var''),
             (''action'', Some ''='')],
         CodeBlock_init ''Join'' [] ''Default'' [(''id'', Some ''block''),
             (''block'', Some ''event''), (''action'', Some ''Join'')]],
        closebracket = None, definedVars = [(''x'', var_item ''x'' ''unsaved'')]\<rparr>
       [PStr ''^y''] = Inl KeyError"
proof -
  let ?script = "[Define ''x'' (PInt 5) ''unsaved'' True, PlayerEvent ''Join'']"
  let ?T = "\<lparr>commands =
        [CodeBlock_init ''='' [[PItem (var_item ''x'' ''unsaved''), PItem (num_item (NInt 5))]]
           ''Default'' [(''id'', Some ''block''), (''block'', Some ''set_var''),
             (''action'', Some ''='')],
         CodeBlock_init ''Join'' [] ''Default'' [(''id'', Some ''block''),
             (''block'', Some ''event''), (''action'', Some ''Join'')]],
        closebracket = None, definedVars = [(''x'', var_item ''x'' ''unsaved'')]\<rparr>"
  have r: "run DFTemplate_init ?script = Inr ?T"
    by (simp add: define_fn_def setVariable_def playerEvent_def append_command_def
        DFTemplate_init_def)
  have shape: "?script = [] @ Define ''x'' (PInt 5) ''unsaved'' True # [PlayerEvent ''Join'']
      \<and> Clear \<notin> set [PlayerEvent ''Join'']
      \<and> (\<forall>c\<in>set [PlayerEvent ''Join'']. \<not> is_define ''x'' c)"
    by simp
  have a: "convertDataTypes ?T [PStr ''^x''] = Inr [PItem (var_item ''x'' ''unsaved'')]"
    using back_reference_resolution [OF r, of "''x''"] shape by blast
  have none: "\<forall>c\<in>set ?script. \<not> is_define ''y'' c"
    by simp
  have b: "convertDataTypes ?T [PStr ''^y''] = Inl KeyError"
    using back_reference_resolution [OF r, of "''y''"] none by blast
  from r a b show ?thesis by blast
qed

lemma convert_element_rules:
  "convert_element t (PInt i) = Inr (PItem (num_item (NInt i)))"
  "convert_element t (PFloat f) = Inr (PItem (num_item (NFloat f)))"
  "c \<noteq> CHR ''^'' \<Longrightarrow> convert_element t (PStr (c # s)) = Inr (PItem (text_item (c # s)))"
  "convert_element t (PItem x) = Inr (PItem x)"
  by simp_all

lemma variadic_methods_convert:
  "playerAction t nm xs tgt = Inr t' \<Longrightarrow> \<exists>as d. convertDataTypes t xs = Inr as \<and>
     t' = append_command t (CodeBlock_init nm [as] tgt d)"
  "gameAction t nm xs = Inr t' \<Longrightarrow> \<exists>as d. convertDataTypes t xs = Inr as \<and>
     t' = append_command t (CodeBlock_init nm [as] ''Default'' d)"
  "entityAction t nm xs = Inr t' \<Longrightarrow> \<exists>as d. convertDataTypes t xs = Inr as \<and>
     t' = append_command t (CodeBlock_init nm [as] ''Default'' d)"
  "ifPlayer t nm xs tgt = Inr t' \<Longrightarrow> \<exists>as d. convertDataTypes t xs = Inr as \<and>
     t' = openbracket (append_command t (CodeBlock_init nm [as] tgt d)) ''norm''"
  "ifVariable t nm xs = Inr t' \<Longrightarrow> \<exists>as d. convertDataTypes t xs = Inr as \<and>
     t' = openbracket (append_command t (CodeBlock_init nm [as] ''Default'' d)) ''norm''"
  "ifGame t nm xs = Inr t' \<Longrightarrow> \<exists>as d. convertDataTypes t xs = Inr as \<and>
     t' = openbracket (append_command t (CodeBlock_init nm [as] ''Default'' d)) ''norm''"
  "ifEntity t nm xs = Inr t' \<Longrightarrow> \<exists>as d. convertDataTypes t xs = Inr as \<and>
     t' = openbracket (append_command t (CodeBlock_init nm [as] ''Default'' d)) ''norm''"
  "repeat t nm xs sa = Inr t' \<Longrightarrow> \<exists>as d. convertDataTypes t xs = Inr as \<and>
     t' = openbracket (append_command t (CodeBlock_init nm [as] ''Default'' d)) ''repeat''"
  "bracket t xs = Inr t' \<Longrightarrow> \<exists>as. convertDataTypes t xs = Inr as"
  "control t nm xs = Inr t' \<Longrightarrow> \<exists>as d. convertDataTypes t xs = Inr as \<and>
     t' = append_command t (CodeBlock_init nm [as] ''Default'' d)"
  "selectObject t nm xs = Inr t' \<Longrightarrow> \<exists>as d. convertDataTypes t xs = Inr as \<and>
     t' = append_command t (CodeBlock_init nm [as] ''Default'' d)"
  "setVariable t nm xs = Inr t' \<Longrightarrow> \<exists>as d. convertDataTypes t xs = Inr as \<and>
     t' = append_command t (CodeBlock_init nm [as] ''Default'' d)"
  by (auto simp: simple_method_defs ifPlayer_def ifVariable_def ifGame_def ifEntity_def
      repeat_def bracket_def Let_def split: sum.splits)

text \<open>
  C6. The empty string is a raw string that does not start with \<open>^\<close>, and the conversion
  does not make it a text value: \<open>element[0]\<close> raises \<open>IndexError\<close>, and so does every
  builder method that is handed it.
\<close>

theorem empty_string_argument_raises:
  "convert_element t (PStr '''') = Inl IndexError
   \<and> convertDataTypes t [PStr ''''] = Inl IndexError
   \<and> playerAction t ''SendMessage'' [PStr ''''] ''Default'' = Inl IndexError
   \<and> setVariable t ''='' [PItem (var_item ''x'' ''unsaved''), PStr ''''] = Inl IndexError"
  by (simp add: playerAction_def setVariable_def)

section \<open>The template name\<close>

lemma template_name_cases:
  assumes "template_name (b # bs) = Inr (n, ws)"
  shows "(\<exists>c a. dict_get b ''block'' = Inr (Val (Some c)) \<and> c \<in> TEMPLATE_STARTERS
            \<and> dict_get b ''action'' = Inr (Val (Some a)) \<and> n = Val (Some (c @ ''_'' @ a)) \<and> ws = [])
       \<or> (\<exists>c. dict_get b ''block'' = Inr (Val (Some c)) \<and> c \<in> TEMPLATE_STARTERS
            \<and> dict_get b ''action'' = Inl KeyError \<and> dict_get b ''data'' = Inr n \<and> ws = [])
       \<or> ((dict_get b ''block'' = Inr (Val None)
             \<or> (\<exists>c. dict_get b ''block'' = Inr (Val (Some c)) \<and> c \<notin> TEMPLATE_STARTERS))
            \<and> n = Val (Some ''Unnamed'') \<and> ws = [NoTemplateStarter])"
proof -
  have k: "dict_get b ''action'' = Inl e \<Longrightarrow> e = KeyError" for e
    by (auto simp: dict_get_def split: option.splits)
  show ?thesis
    using assms k
    by (auto simp: template_name_def split: sum.splits bval.splits option.splits if_splits)
qed

text \<open>
  C5. \<open>build\<close> on a template without commands does not return the name \<open>Unnamed\<close>; it
  raises \<open>IndexError\<close> at \<open>mainDict['blocks'][0]\<close>. On a template whose first block is
  a bracket (no key \<open>block\<close>) it raises \<open>KeyError\<close>.
\<close>

theorem build_empty_template_raises:
  "build cd DFTemplate_init = Inl IndexError
   \<and> build cd (clear t) = Inl IndexError
   \<and> bracket DFTemplate_init [] = Inr (DFTemplate_init\<lparr>commands := [close_block None]\<rparr>)
   \<and> build cd (DFTemplate_init\<lparr>commands := [close_block None]\<rparr>) = Inl KeyError"
  by (simp add: build_def clear_def DFTemplate_init_def template_name_def bracket_def
      append_command_def CodeBlock_init_def build_block_def render_block_def copy_data_def
      bracket_data_def dict_get_def dict_get_or_none_def add_target_def find_tags_def)

section \<open>callFunction\<close>

lemma convert_element_commands:
  "convert_element (t\<lparr>commands := cs\<rparr>) v = convert_element t v"
  by (cases v) (auto split: list.splits)

lemma set_locals_result:
  assumes "list_all2 (\<lambda>key a. \<exists>v. map_of ps key = Some v \<and> convert_element t v = Inr a) ks as"
  shows "set_locals t ps ks =
           Inr (t\<lparr>commands := commands t @ map (\<lambda>(key, a). set_local_block key a) (zip ks as)\<rparr>)"
  using assms
proof (induction ks arbitrary: t as)
  case Nil
  then show ?case by simp
next
  case (Cons k ks)
  from Cons.prems obtain a as' v where as: "as = a # as'"
    and v: "map_of ps k = Some v" "convert_element t v = Inr a"
    and rest: "list_all2 (\<lambda>key a. \<exists>v. map_of ps key = Some v \<and> convert_element t v = Inr a) ks as'"
    by (auto simp: list_all2_Cons1)
  let ?t1 = "t\<lparr>commands := commands t @ [set_local_block k a]\<rparr>"
  have sv: "setVariable t ''='' [PItem (var_item k ''local''), v] = Inr ?t1"
    using v by (simp add: setVariable_def append_command_def)
  have "list_all2 (\<lambda>key a. \<exists>v. map_of ps key = Some v \<and> convert_element ?t1 v = Inr a) ks as'"
    using rest by (simp add: convert_element_commands)
  from Cons.IH [OF this] sv v as show ?case
    by (simp add: dict_get_def)
qed

text \<open>\<open>callFunction\<close> returns only when every value of the dictionary converts.\<close>

lemma setVariable_commands:
  "setVariable t nm xs = Inr t' \<Longrightarrow> convert_element t' v = convert_element t v"
  by (cases v) (auto simp: setVariable_def append_command_def split: sum.splits list.splits)

lemma set_locals_returns_only_if:
  "set_locals t ps ks = Inr t' \<Longrightarrow>
     \<exists>as. list_all2 (\<lambda>key a. \<exists>v. map_of ps key = Some v \<and> convert_element t v = Inr a) ks as"
proof (induction ks arbitrary: t)
  case Nil
  then show ?case by simp
next
  case (Cons k ks)
  from Cons.prems obtain v t1 where g: "map_of ps k = Some v"
    and sv: "setVariable t ''='' [PItem (var_item k ''local''), v] = Inr t1"
    and rest: "set_locals t1 ps ks = Inr t'"
    by (auto simp: dict_get_def split: sum.splits option.splits)
  from sv obtain a where a: "convert_element t v = Inr a"
    by (auto simp: setVariable_def split: sum.splits)
  from Cons.IH [OF rest] obtain as where
    "list_all2 (\<lambda>key a. \<exists>v. map_of ps key = Some v \<and> convert_element t1 v = Inr a) ks as" ..
  then have "list_all2 (\<lambda>key a. \<exists>v. map_of ps key = Some v \<and> convert_element t v = Inr a) ks as"
    by (simp add: setVariable_commands [OF sv])
  with g a have "list_all2 (\<lambda>key a. \<exists>v. map_of ps key = Some v \<and> convert_element t v = Inr a)
      (k # ks) (a # as)"
    by auto
  then show ?case ..
qed

lemma callFunction_returns_only_if:
  assumes "callFunction t nm parameters = Inr t'" and "distinct (map fst parameters)"
  shows "\<exists>as. list_all2 (\<lambda>(key, v) a. convert_element t v = Inr a) parameters as"
proof (cases "parameters = []")
  case True
  then show ?thesis by simp
next
  case False
  with assms(1) obtain t1 where "set_locals t parameters (map fst parameters) = Inr t1"
    by (auto simp: callFunction_def split: sum.splits)
  from set_locals_returns_only_if [OF this] obtain as where
    as: "list_all2 (\<lambda>key a. \<exists>v. map_of parameters key = Some v \<and> convert_element t v = Inr a)
      (map fst parameters) as" ..
  have "list_all2 (\<lambda>(key, v) a. convert_element t v = Inr a) parameters as"
    unfolding list_all2_conv_all_nth
  proof (intro conjI allI impI)
    show "length parameters = length as"
      using list_all2_lengthD [OF as] by simp
  next
    fix i assume i: "i < length parameters"
    then have "map_of parameters (fst (parameters ! i)) = Some (snd (parameters ! i))"
      using assms(2) by simp
    moreover from list_all2_nthD [OF as, of i] i
    have "\<exists>v. map_of parameters (fst (parameters ! i)) = Some v \<and> convert_element t v = Inr (as ! i)"
      by simp
    ultimately show "(case parameters ! i of (key, v) \<Rightarrow> \<lambda>a. convert_element t v = Inr a) (as ! i)"
      by (auto simp: case_prod_beta)
  qed
  then show ?thesis ..
qed

lemma parameters_by_key:
  assumes "distinct (map fst parameters)" and "set pre \<subseteq> set parameters"
    and "list_all2 (\<lambda>(key, v) a. convert_element t v = Inr a) pre as"
  shows "list_all2 (\<lambda>key a. \<exists>v. map_of parameters key = Some v \<and> convert_element t v = Inr a)
           (map fst pre) as"
  unfolding list_all2_conv_all_nth
proof (intro conjI allI impI)
  show "length (map fst pre) = length as"
    using list_all2_lengthD [OF assms(3)] by simp
next
  fix i assume i: "i < length (map fst pre)"
  then have "pre ! i \<in> set parameters"
    using assms(2) by auto
  then have "map_of parameters (fst (pre ! i)) = Some (snd (pre ! i))"
    using assms(1) by simp
  moreover have "convert_element t (snd (pre ! i)) = Inr (as ! i)"
    using list_all2_nthD [OF assms(3), of i] i by (simp add: case_prod_beta)
  ultimately show "\<exists>v. map_of parameters (map fst pre ! i) = Some v
      \<and> convert_element t v = Inr (as ! i)"
    using i by simp
qed

lemma set_locals_raises:
  assumes "list_all2 (\<lambda>key a. \<exists>v. map_of ps key = Some v \<and> convert_element t v = Inr a) ks as"
    and "map_of ps k = Some v" and "convert_element t v = Inl e"
  shows "set_locals t ps (ks @ k # ks') = Inl e
         \<and> set_locals_reached t ps (ks @ k # ks') =
             t\<lparr>commands := commands t @ map (\<lambda>(key, a). set_local_block key a) (zip ks as)\<rparr>"
  using assms
proof (induction ks arbitrary: t as)
  case Nil
  then show ?case
    by (simp add: dict_get_def setVariable_def)
next
  case (Cons k0 ks)
  from Cons.prems(1) obtain a as' v0 where as: "as = a # as'"
    and v0: "map_of ps k0 = Some v0" "convert_element t v0 = Inr a"
    and rest: "list_all2 (\<lambda>key a. \<exists>v. map_of ps key = Some v \<and> convert_element t v = Inr a) ks as'"
    by (auto simp: list_all2_Cons1)
  let ?t1 = "t\<lparr>commands := commands t @ [set_local_block k0 a]\<rparr>"
  have sv: "setVariable t ''='' [PItem (var_item k0 ''local''), v0] = Inr ?t1"
    using v0 by (simp add: setVariable_def append_command_def)
  have r1: "list_all2 (\<lambda>key a. \<exists>v. map_of ps key = Some v \<and> convert_element ?t1 v = Inr a) ks as'"
    using rest by (simp add: convert_element_commands)
  have e1: "convert_element ?t1 v = Inl e"
    using Cons.prems(3) by (simp add: convert_element_commands)
  from Cons.IH [OF r1 Cons.prems(2) e1] sv v0 as show ?case
    by (simp add: dict_get_def)
qed

lemma set_locals_reached_result:
  "set_locals t ps ks = Inr t' \<Longrightarrow> set_locals_reached t ps ks = t'"
  by (induction ks arbitrary: t) (auto split: sum.splits)

text \<open>
  C8, as the code has it. \<open>callFunction\<close> with a parameters dictionary (distinct keys, in
  insertion order) whose values all convert returns, and it has appended, after the
  commands that were there, one \<open>set_var\<close> block \<open>=\<close> per parameter in the order of the
  dictionary, with the arguments \<open>var(key, scope='local')\<close> and the converted value, and
  after them one \<open>call_func\<close> block that carries the function name. When a value is a
  back-reference to a name that is not defined, and the values before it convert, the
  call raises \<open>KeyError\<close>: it leaves the \<open>set_var\<close> blocks of the parameters before that
  one appended, and no \<open>call_func\<close> block.
\<close>

theorem callFunction_appends_blocks:
  assumes "distinct (map fst parameters)"
  shows "(list_all2 (\<lambda>(key, v) a. convert_element t v = Inr a) parameters as \<longrightarrow>
            callFunction t nm parameters =
              Inr (t\<lparr>commands := commands t
                @ map (\<lambda>((key, v), a).
                    \<lparr>name = ''='', args = [[PItem (var_item key ''local''), a]],
                     target = ''Default'',
                     data = [(''id'', Some ''block''), (''block'', Some ''set_var''),
                             (''action'', Some ''='')]\<rparr>) (zip parameters as)
                @ [\<lparr>name = ''call_func'', args = [], target = ''Default'',
                    data = [(''id'', Some ''block''), (''block'', Some ''call_func''),
                            (''data'', Some nm)]\<rparr>]\<rparr>))
       \<and> (parameters = pre @ (k, PStr (CHR ''^'' # ref)) # post
            \<and> list_all2 (\<lambda>(key, v) a. convert_element t v = Inr a) pre as'
            \<and> map_of (definedVars t) ref = None \<longrightarrow>
            callFunction t nm parameters = Inl KeyError
            \<and> commands (callFunction_reached t nm parameters) =
                commands t
                @ map (\<lambda>((key, v), a).
                    \<lparr>name = ''='', args = [[PItem (var_item key ''local''), a]],
                     target = ''Default'',
                     data = [(''id'', Some ''block''), (''block'', Some ''set_var''),
                             (''action'', Some ''='')]\<rparr>) (zip pre as'))"
proof (intro conjI impI)
  assume conv: "list_all2 (\<lambda>(key, v) a. convert_element t v = Inr a) parameters as"
  have len: "length parameters = length as"
    using conv by (rule list_all2_lengthD)
  from set_locals_result [OF parameters_by_key [OF assms subset_refl conv]]
  have sl: "set_locals t parameters (map fst parameters) =
      Inr (t\<lparr>commands := commands t
            @ map (\<lambda>(key, a). set_local_block key a) (zip (map fst parameters) as)\<rparr>)" .
  have z: "map (\<lambda>(key, a). set_local_block key a) (zip (map fst parameters) as) =
      map (\<lambda>((key, v), a).
            \<lparr>name = ''='', args = [[PItem (var_item key ''local''), a]],
             target = ''Default'',
             data = [(''id'', Some ''block''), (''block'', Some ''set_var''),
                     (''action'', Some ''='')]\<rparr>) (zip parameters as)"
    by (simp add: zip_map1 case_prod_beta CodeBlock_init_def)
  show "callFunction t nm parameters =
      Inr (t\<lparr>commands := commands t
        @ map (\<lambda>((key, v), a).
            \<lparr>name = ''='', args = [[PItem (var_item key ''local''), a]],
             target = ''Default'',
             data = [(''id'', Some ''block''), (''block'', Some ''set_var''),
                     (''action'', Some ''='')]\<rparr>) (zip parameters as)
        @ [\<lparr>name = ''call_func'', args = [], target = ''Default'',
            data = [(''id'', Some ''block''), (''block'', Some ''call_func''),
                    (''data'', Some nm)]\<rparr>]\<rparr>)"
  proof (cases "parameters = []")
    case True
    with len show ?thesis
      by (simp add: callFunction_def append_command_def CodeBlock_init_def)
  next
    case False
    with sl z show ?thesis
      by (simp add: callFunction_def append_command_def CodeBlock_init_def)
  qed
next
  assume h: "parameters = pre @ (k, PStr (CHR ''^'' # ref)) # post
      \<and> list_all2 (\<lambda>(key, v) a. convert_element t v = Inr a) pre as'
      \<and> map_of (definedVars t) ref = None"
  then have ne: "parameters \<noteq> []" and sub: "set pre \<subseteq> set parameters"
    and keys: "map fst parameters = map fst pre @ k # map fst post"
    by auto
  have "(k, PStr (CHR ''^'' # ref)) \<in> set parameters"
    using h by simp
  then have g: "map_of parameters k = Some (PStr (CHR ''^'' # ref))"
    using assms by simp
  have e: "convert_element t (PStr (CHR ''^'' # ref)) = Inl KeyError"
    using h by (simp add: dict_get_def)
  from h have conv: "list_all2 (\<lambda>(key, v) a. convert_element t v = Inr a) pre as'"
    by simp
  from set_locals_raises [OF parameters_by_key [OF assms sub conv] g e, of "map fst post"]
  have sl: "set_locals t parameters (map fst parameters) = Inl KeyError"
    and sr: "set_locals_reached t parameters (map fst parameters) =
      t\<lparr>commands := commands t
        @ map (\<lambda>(key, a). set_local_block key a) (zip (map fst pre) as')\<rparr>"
    by (simp_all add: keys)
  have z: "map (\<lambda>(key, a). set_local_block key a) (zip (map fst pre) as') =
      map (\<lambda>((key, v), a).
            \<lparr>name = ''='', args = [[PItem (var_item key ''local''), a]],
             target = ''Default'',
             data = [(''id'', Some ''block''), (''block'', Some ''set_var''),
                     (''action'', Some ''='')]\<rparr>) (zip pre as')"
    by (simp add: zip_map1 case_prod_beta CodeBlock_init_def)
  show "callFunction t nm parameters = Inl KeyError"
    using sl ne by (simp add: callFunction_def)
  show "commands (callFunction_reached t nm parameters) =
      commands t
      @ map (\<lambda>((key, v), a).
          \<lparr>name = ''='', args = [[PItem (var_item key ''local''), a]],
           target = ''Default'',
           data = [(''id'', Some ''block''), (''block'', Some ''set_var''),
                   (''action'', Some ''='')]\<rparr>) (zip pre as')"
    using sl sr ne z by (simp add: callFunction_reached_def)
qed

theorem callFunction_appends_blocks_witness:
  "distinct (map fst [(''a'', PInt 1), (''b'', PStr ''s'')])
   \<and> list_all2 (\<lambda>(key, v) a. convert_element DFTemplate_init v = Inr a)
        [(''a'', PInt 1), (''b'', PStr ''s'')] [PItem (num_item (NInt 1)), PItem (text_item ''s'')]
   \<and> callFunction DFTemplate_init ''f'' [(''a'', PInt 1), (''b'', PStr ''s'')] =
       Inr \<lparr>commands =
         [\<lparr>name = ''='', args = [[PItem (var_item ''a'' ''local''), PItem (num_item (NInt 1))]],
           target = ''Default'',
           data = [(''id'', Some ''block''), (''block'', Some ''set_var''),
                   (''action'', Some ''='')]\<rparr>,
          \<lparr>name = ''='', args = [[PItem (var_item ''b'' ''local''), PItem (text_item ''s'')]],
           target = ''Default'',
           data = [(''id'', Some ''block''), (''block'', Some ''set_var''),
                   (''action'', Some ''='')]\<rparr>,
          \<lparr>name = ''call_func'', args = [], target = ''Default'',
           data = [(''id'', Some ''block''), (''block'', Some ''call_func''),
                   (''data'', Some ''f'')]\<rparr>],
         closebracket = None, definedVars = []\<rparr>
   \<and> distinct (map fst [(''a'', PInt 1), (''b'', PStr ''^x''), (''c'', PInt 2)])
   \<and> list_all2 (\<lambda>(key, v) a. convert_element DFTemplate_init v = Inr a)
        [(''a'', PInt 1)] [PItem (num_item (NInt 1))]
   \<and> map_of (definedVars DFTemplate_init) ''x'' = None
   \<and> callFunction DFTemplate_init ''f'' [(''a'', PInt 1), (''b'', PStr ''^x''), (''c'', PInt 2)] =
       Inl KeyError
   \<and> commands (callFunction_reached DFTemplate_init ''f''
         [(''a'', PInt 1), (''b'', PStr ''^x''), (''c'', PInt 2)]) =
       [\<lparr>name = ''='', args = [[PItem (var_item ''a'' ''local''), PItem (num_item (NInt 1))]],
         target = ''Default'',
         data = [(''id'', Some ''block''), (''block'', Some ''set_var''),
                 (''action'', Some ''='')]\<rparr>]"
proof -
  have d: "distinct (map fst [(''a'', PInt 1), (''b'', PStr ''s'')])" by simp
  have c: "list_all2 (\<lambda>(key, v) a. convert_element DFTemplate_init v = Inr a)
        [(''a'', PInt 1), (''b'', PStr ''s'')] [PItem (num_item (NInt 1)), PItem (text_item ''s'')]"
    by simp
  have r: "callFunction DFTemplate_init ''f'' [(''a'', PInt 1), (''b'', PStr ''s'')] =
       Inr \<lparr>commands =
         [\<lparr>name = ''='', args = [[PItem (var_item ''a'' ''local''), PItem (num_item (NInt 1))]],
           target = ''Default'',
           data = [(''id'', Some ''block''), (''block'', Some ''set_var''),
                   (''action'', Some ''='')]\<rparr>,
          \<lparr>name = ''='', args = [[PItem (var_item ''b'' ''local''), PItem (text_item ''s'')]],
           target = ''Default'',
           data = [(''id'', Some ''block''), (''block'', Some ''set_var''),
                   (''action'', Some ''='')]\<rparr>,
          \<lparr>name = ''call_func'', args = [], target = ''Default'',
           data = [(''id'', Some ''block''), (''block'', Some ''call_func''),
                   (''data'', Some ''f'')]\<rparr>],
         closebracket = None, definedVars = []\<rparr>"
    using callFunction_appends_blocks [OF d, where t = DFTemplate_init and nm = "''f''"
        and as = "[PItem (num_item (NInt 1)), PItem (text_item ''s'')]",
        THEN conjunct1, THEN mp, OF c]
    by (simp add: DFTemplate_init_def)
  have d': "distinct (map fst [(''a'', PInt 1), (''b'', PStr ''^x''), (''c'', PInt 2)])" by simp
  have c': "list_all2 (\<lambda>(key, v) a. convert_element DFTemplate_init v = Inr a)
        [(''a'', PInt 1)] [PItem (num_item (NInt 1))]"
    by simp
  have u: "map_of (definedVars DFTemplate_init) ''x'' = None"
    by (simp add: DFTemplate_init_def)
  have shape: "[(''a'', PInt 1), (''b'', PStr ''^x''), (''c'', PInt 2)] =
      [(''a'', PInt 1)] @ (''b'', PStr (CHR ''^'' # ''x'')) # [(''c'', PInt 2)]"
    by simp
  have hyp: "[(''a'', PInt 1), (''b'', PStr ''^x''), (''c'', PInt 2)] =
      [(''a'', PInt 1)] @ (''b'', PStr (CHR ''^'' # ''x'')) # [(''c'', PInt 2)]
      \<and> list_all2 (\<lambda>(key, v) a. convert_element DFTemplate_init v = Inr a)
        [(''a'', PInt 1)] [PItem (num_item (NInt 1))]
      \<and> map_of (definedVars DFTemplate_init) ''x'' = None"
    using shape c' u by blast
  from callFunction_appends_blocks [OF d', where t = DFTemplate_init and nm = "''f''"
      and pre = "[(''a'', PInt 1)]" and k = "''b''" and ref = "''x''"
      and post = "[(''c'', PInt 2)]" and as' = "[PItem (num_item (NInt 1))]",
      THEN conjunct2, THEN mp, OF hyp]
  have k: "callFunction DFTemplate_init ''f''
        [(''a'', PInt 1), (''b'', PStr ''^x''), (''c'', PInt 2)] = Inl KeyError
      \<and> commands (callFunction_reached DFTemplate_init ''f''
         [(''a'', PInt 1), (''b'', PStr ''^x''), (''c'', PInt 2)]) =
       [\<lparr>name = ''='', args = [[PItem (var_item ''a'' ''local''), PItem (num_item (NInt 1))]],
         target = ''Default'',
         data = [(''id'', Some ''block''), (''block'', Some ''set_var''),
                 (''action'', Some ''='')]\<rparr>]"
    by (simp add: DFTemplate_init_def)
  from d c r d' c' u k show ?thesis by blast
qed

text \<open>The claim as stated fails: with a value that refers to a name that is not defined
  the call raises after the first \<open>set_var\<close> block, and appends no \<open>call_func\<close> block.\<close>

theorem callFunction_unknown_reference_counterexample:
  "callFunction DFTemplate_init ''f'' [(''a'', PInt 1), (''b'', PStr ''^nope'')] = Inl KeyError
   \<and> commands (callFunction_reached DFTemplate_init ''f''
         [(''a'', PInt 1), (''b'', PStr ''^nope'')]) =
       [\<lparr>name = ''='', args = [[PItem (var_item ''a'' ''local''), PItem (num_item (NInt 1))]],
         target = ''Default'',
         data = [(''id'', Some ''block''), (''block'', Some ''set_var''),
                 (''action'', Some ''='')]\<rparr>]"
  by (simp add: callFunction_def callFunction_reached_def setVariable_def dict_get_def
      append_command_def CodeBlock_init_def DFTemplate_init_def)

text \<open>With the empty string as a value the call stops in the same way, on the
  \<open>IndexError\<close> of the conversion.\<close>

lemma callFunction_empty_string_value:
  "callFunction DFTemplate_init ''f'' [(''a'', PInt 1), (''b'', PStr '''')] = Inl IndexError
   \<and> commands (callFunction_reached DFTemplate_init ''f'' [(''a'', PInt 1), (''b'', PStr '''')]) =
       [\<lparr>name = ''='', args = [[PItem (var_item ''a'' ''local''), PItem (num_item (NInt 1))]],
         target = ''Default'',
         data = [(''id'', Some ''block''), (''block'', Some ''set_var''),
                 (''action'', Some ''='')]\<rparr>]"
  by (simp add: callFunction_def callFunction_reached_def setVariable_def dict_get_def
      append_command_def CodeBlock_init_def DFTemplate_init_def)

section \<open>build: items, slots and tags\<close>

lemma dict_get_update:
  "dict_get (AList.update k v al) k' = (if k' = k then Inr v else dict_get al k')"
  by (simp add: dict_get_def update_conv')



lemma dict_get_bracket_data:
  "bracket_data cmd block = Inr block' \<Longrightarrow> dict_get block' ''args'' = dict_get block ''args''"
  by (auto simp: bracket_data_def dict_get_update split: if_splits sum.splits)


lemma add_items_returns_only_items:
  "add_items as slot block = Inr block' \<Longrightarrow> \<exists>xs. as = map PItem xs"
proof (induction as arbitrary: slot block)
  case Nil
  then show ?case by simp
next
  case (Cons a as)
  from Cons.prems obtain x where a: "a = PItem x"
    by (cases a) auto
  from Cons.prems a obtain block1 where "add_items as (Suc slot) block1 = Inr block'"
    by (auto split: sum.splits if_splits)
  from Cons.IH [OF this] obtain xs where "as = map PItem xs" ..
  with a have "a # as = map PItem (x # xs)" by simp
  then show ?case ..
qed


lemma find_tags_loaded:
  assumes "loadCodeblockData content = Inr cd"
  shows "\<exists>tags ws. find_tags cd cmd = Inr (tags, ws)"
proof (cases content)
  case None
  with assms have "cd = \<lparr>TAGDATA = Map.empty, TAGDATA_KEYS = {}, TAGDATA_EXTRAS_KEYS = {}\<rparr>"
    by (simp add: loadCodeblockData_def)
  then show ?thesis
    by (simp add: find_tags_def split: option.splits)
next
  case (Some tagData)
  with assms obtain extras where e: "tagData ''extras'' = Some extras"
    and cd: "cd = \<lparr>TAGDATA = tagData, TAGDATA_KEYS = dom tagData, TAGDATA_EXTRAS_KEYS = dom extras\<rparr>"
    by (auto simp: loadCodeblockData_def split: option.splits)
  show ?thesis
    using e by (auto simp: cd find_tags_def split: option.splits)
qed





lemma build_blocks_nth:
  "build_blocks cd cmds = Inr (blocks, ws) \<Longrightarrow>
     length blocks = length cmds
     \<and> (\<forall>i<length cmds. \<exists>w. build_block cd (cmds ! i) = Inr (blocks ! i, w))"
proof (induction cmds arbitrary: blocks ws)
  case Nil
  then show ?case by simp
next
  case (Cons cmd cmds)
  from Cons.prems obtain b w bs ws' where b: "build_block cd cmd = Inr (b, w)"
    and bs: "build_blocks cd cmds = Inr (bs, ws')" and eq: "blocks = b # bs"
    by (auto split: sum.splits prod.splits)
  from Cons.IH [OF bs] b eq show ?case
    by (auto simp: nth_Cons split: nat.splits)
qed

lemma build_mainDict:
  "build cd t = Inr r \<Longrightarrow>
     length (mainDict r) = length (commands t)
     \<and> (\<forall>i<length (commands t). \<exists>w. build_block cd (commands t ! i) = Inr (mainDict r ! i, w))"
  by (auto simp: build_def split: sum.splits prod.splits dest!: build_blocks_nth)

text \<open>The example schema is what \<open>_loadCodeblockData\<close> returns for a file with the two
  keys \<open>extras\<close> and \<open>player_action\<close>.\<close>

lemma example_schema_loaded:
  "loadCodeblockData (Some [''extras'' \<mapsto> Map.empty,
      ''player_action'' \<mapsto> [''SendMessage'' \<mapsto> [''Alignment Mode'']]]) = Inr example_schema"
  by (auto simp: loadCodeblockData_def)

lemmas build_eval_defs =
  build_def build_block_def render_block_def template_name_def CodeBlock_init_def copy_data_def
  bracket_data_def dict_get_or_none_def add_target_def VARIABLE_TYPES_def TEMPLATE_STARTERS_def
  format_def append_item_def dict_get_def find_tags_def set_tags_def py_slice_to_def

text \<open>
  C1. For \<open>playerEvent('Join')\<close> and \<open>playerAction('SendMessage', ...)\<close> with 27 arguments,
  and a schema with one tag for \<open>SendMessage\<close>, the items and the tag together exceed
  the capacity of 27, and \<open>build\<close> does not trim the items to \<open>26 - 1\<close> entries: it keeps
  all 27 and adds the tag, so the list has 28 entries. The guard of line 140 counts the
  items alone, while the trim size of line 141 counts the tags: the same block with 28
  arguments is trimmed to 25 items and gets 26 entries.
\<close>

theorem tags_overflow_capacity:
  "playerAction (playerEvent DFTemplate_init ''Join'') ''SendMessage'' (replicate 27 (PStr ''a''))
     ''Default'' = Inr (example_template (replicate 27 (PItem (text_item ''a''))))
   \<and> build example_schema (example_template (replicate 27 (PItem (text_item ''a'')))) =
       Inr \<lparr>mainDict = [example_event_block,
              example_action_block (map (Formatted (text_item ''a'')) [0..<27]
                @ [Tag ''Alignment Mode''])],
            templateName = Val (Some ''event_Join''), warnings = []\<rparr>
   \<and> 27 < length (map (Formatted (text_item ''a'') :: nat \<Rightarrow> string entry) [0..<27])
            + length [''Alignment Mode'']
   \<and> length (map (Formatted (text_item ''a'')) [0..<27] @ [Tag ''Alignment Mode'']) = 28
   \<and> length (map (Formatted (text_item ''a'')) [0..<27] @ [Tag ''Alignment Mode''])
       \<noteq> (26 - length [''Alignment Mode'']) + length [''Alignment Mode'']
   \<and> build_block example_schema (example_action (replicate 28 (PItem (text_item ''a'')))) =
       Inr (example_action_block (map (Formatted (text_item ''a'')) [0..<25]
              @ [Tag ''Alignment Mode'']), [])
   \<and> length (map (Formatted (text_item ''a'') :: nat \<Rightarrow> string entry) [0..<25]
         @ [Tag ''Alignment Mode'']) = 26"
  by (simp add: playerAction_def playerEvent_def append_command_def DFTemplate_init_def
      build_eval_defs eval_nat_numeral)

subsection \<open>The blocks of a script\<close>

lemma builder_keys_append_command:
  "list_all builder_keys (commands (append_command t c)) \<longleftrightarrow>
     list_all builder_keys (commands t) \<and> builder_keys c"
  by (simp add: append_command_def)

lemma builder_keys_openbracket:
  "list_all builder_keys (commands (openbracket t btype)) \<longleftrightarrow>
     list_all builder_keys (commands t)"
  by (simp add: openbracket_def append_command_def CodeBlock_init_def builder_keys_def)

lemma builder_keys_CodeBlock_init:
  "builder_keys (CodeBlock_init nm [] tgt d)"
  "builder_keys (CodeBlock_init nm as tgt
     [(''id'', Some ''block''), (''block'', Some b), (''action'', Some nm)])"
  "builder_keys (CodeBlock_init nm as tgt
     [(''id'', Some ''block''), (''block'', Some b), (''action'', Some nm),
      (''subAction'', Some sa)])"
  by (simp_all add: CodeBlock_init_def builder_keys_def)

lemmas builder_keys_simps =
  builder_keys_append_command builder_keys_openbracket builder_keys_CodeBlock_init

lemma set_locals_keys:
  "list_all builder_keys (commands t) \<Longrightarrow> set_locals t ps ks = Inr t' \<Longrightarrow>
     list_all builder_keys (commands t')"
proof (induction ks arbitrary: t)
  case Nil
  then show ?case by simp
next
  case (Cons k ks)
  from Cons.prems(2) obtain v t1 where
    sv: "setVariable t ''='' [PItem (var_item k ''local''), v] = Inr t1"
    and rest: "set_locals t1 ps ks = Inr t'"
    by (auto split: sum.splits)
  have "list_all builder_keys (commands t1)"
    using sv Cons.prems(1)
    by (auto simp: setVariable_def builder_keys_simps split: sum.splits)
  from Cons.IH [OF this rest] show ?case .
qed

lemma call_keys:
  assumes "list_all builder_keys (commands t)" and "call t c = Inr t'"
  shows "list_all builder_keys (commands t')"
proof (cases c)
  case (CallFunction nm ps)
  with assms(2) obtain t1 where
    sl: "(if ps \<noteq> [] then set_locals t ps (map fst ps) else Inr t) = Inr t1"
    and t': "t' = append_command t1 (CodeBlock_init ''call_func'' [] ''Default''
          [(''id'', Some ''block''), (''block'', Some ''call_func''), (''data'', Some nm)])"
    by (auto simp: callFunction_def split: sum.splits)
  have "list_all builder_keys (commands t1)"
    using sl set_locals_keys [OF assms(1)] assms(1) by (auto split: if_splits)
  then show ?thesis
    by (simp add: t' builder_keys_simps)
next
  case (Return ps)
  with assms(2) obtain t1 where sl: "set_locals t ps (map fst ps) = Inr t1"
    and c: "control t1 ''Return'' [] = Inr t'"
    by (auto simp: return_fn_def split: sum.splits)
  from set_locals_keys [OF assms(1) sl] c show ?thesis
    by (auto simp: control_def builder_keys_simps split: sum.splits)
next
  case (Define nm v scope csv)
  with assms show ?thesis
    by (auto simp: define_fn_def setVariable_def builder_keys_simps split: sum.splits if_splits)
next
  case (Repeat nm xs sa)
  with assms show ?thesis
    by (cases sa) (auto simp: repeat_def Let_def builder_keys_simps split: sum.splits)
next
  case Clear
  with assms show ?thesis by (auto simp: clear_def DFTemplate_init_def)
qed (use assms in \<open>auto simp: simple_method_defs ifPlayer_def ifVariable_def ifGame_def
      ifEntity_def else_fn_def bracket_def builder_keys_simps split: sum.splits\<close>)

lemma run_keys:
  "list_all builder_keys (commands t) \<Longrightarrow> run t script = Inr t' \<Longrightarrow>
     list_all builder_keys (commands t')"
proof (induction script arbitrary: t)
  case Nil
  then show ?case by simp
next
  case (Cons c cs)
  from Cons.prems(2) obtain t1 where c: "call t c = Inr t1" and r: "run t1 cs = Inr t'"
    by (auto split: sum.splits)
  from Cons.IH [OF call_keys [OF Cons.prems(1) c] r] show ?case .
qed

lemma run_builder_keys:
  assumes "run DFTemplate_init script = Inr t" and "cmd \<in> set (commands t)"
    and "args cmd \<noteq> []"
  shows "fst ` set (data cmd) \<subseteq> {''id'', ''block'', ''action'', ''subAction''}"
proof -
  have "list_all builder_keys (commands DFTemplate_init)"
    by (simp add: DFTemplate_init_def)
  from run_keys [OF this assms(1)] assms(2) have "builder_keys cmd"
    by (simp add: list_all_iff)
  with assms(3) show ?thesis
    by (simp add: builder_keys_def)
qed




end
